theory Spec2Isabelle
  imports Complex_Main "HOL-Library.Sublist"
begin

section \<open>Python primitives used by the analysis scripts\<close>

text \<open>
  The scripts work on Python lists of unbounded integers. Three library behaviours matter
  for the properties below: subscripting a list (which raises \<open>IndexError\<close> outside
  \<open>-n .. n-1\<close> and counts from the end for a negative subscript), \<open>int()\<close> applied to
  a float (truncation towards zero) and \<open>statistics.stdev\<close> (which raises
  \<open>StatisticsError\<close> on fewer than two data points). \<open>min\<close> and \<open>max\<close> raise
  \<open>ValueError\<close> on an empty list, \<open>statistics.mean\<close> raises \<open>StatisticsError\<close> on
  one, and \<open>/\<close> raises \<open>ZeroDivisionError\<close>. A raise is the value \<open>Inl e\<close>;
  \<open>bind_err\<close> sequences two steps and stops at the first raise.
  The float products \<open>c * len(xs)\<close> are modelled by exact rational arithmetic.
\<close>

datatype py_error = IndexError | ValueError | StatisticsError | ZeroDivisionError

definition py_subscript :: "'a list \<Rightarrow> int \<Rightarrow> py_error + 'a" where
  "py_subscript xs i =
     (if 0 \<le> i \<and> i < int (length xs) then Inr (xs ! nat i)
      else if i < 0 \<and> - int (length xs) \<le> i then Inr (xs ! nat (int (length xs) + i))
      else Inl IndexError)"

definition py_int :: "'a::floor_ceiling \<Rightarrow> int" where
  "py_int r = (if r < 0 then - \<lfloor>- r\<rfloor> else \<lfloor>r\<rfloor>)"

definition bind_err :: "py_error + 'a \<Rightarrow> ('a \<Rightarrow> py_error + 'b) \<Rightarrow> py_error + 'b" where
  "bind_err m f = (case m of Inl e \<Rightarrow> Inl e | Inr v \<Rightarrow> f v)"

fun map_err :: "('a \<Rightarrow> py_error + 'b) \<Rightarrow> 'a list \<Rightarrow> py_error + 'b list" where
  "map_err f [] = Inr []"
| "map_err f (x # xs) =
     bind_err (f x) (\<lambda>y. bind_err (map_err f xs) (\<lambda>ys. Inr (y # ys)))"

definition py_min :: "int list \<Rightarrow> py_error + int" where
  "py_min xs = (case xs of [] \<Rightarrow> Inl ValueError | y # ys \<Rightarrow> Inr (fold min ys y))"

definition py_max :: "int list \<Rightarrow> py_error + int" where
  "py_max xs = (case xs of [] \<Rightarrow> Inl ValueError | y # ys \<Rightarrow> Inr (fold max ys y))"

definition py_mean :: "int list \<Rightarrow> py_error + rat" where
  "py_mean xs =
     (if xs = [] then Inl StatisticsError
      else Inr (of_int (sum_list xs) / of_nat (length xs)))"

definition py_truediv :: "nat \<Rightarrow> nat \<Rightarrow> py_error + rat" where
  "py_truediv a b = (if b = 0 then Inl ZeroDivisionError else Inr (of_nat a / of_nat b))"

text \<open>\<^verbatim>\<open>sorted(ds)[int(c * len(ds))]\<close>, the subscript every script uses for a percentile.\<close>

definition sorted_at :: "int list \<Rightarrow> rat \<Rightarrow> py_error + int" where
  "sorted_at ds c = py_subscript (sort ds) (py_int (c * of_nat (length ds)))"

section \<open>Distribution analyzer: the floor-index percentile\<close>

text \<open>
  \<^verbatim>\<open>
  aa_sorted = sorted(aa_deltas)
  for p in percentiles:
      idx = int(p/100 * len(aa_sorted))
      if idx >= len(aa_sorted):
          idx = len(aa_sorted) - 1
      value = aa_sorted[idx]
  \<close>
  (\<open>detailed_delta_analysis.py\<close>, \<open>analyze_actual_delta_distribution\<close>;
  \<open>proper_dual_range_analysis.py\<close>, \<open>analyze_battery_type_ranges\<close>).
\<close>

definition percentile_idx :: "nat \<Rightarrow> rat \<Rightarrow> int" where
  "percentile_idx n p =
     (let idx = py_int (p / 100 * of_nat n)
      in if idx \<ge> int n then int n - 1 else idx)"

definition percentile :: "int list \<Rightarrow> rat \<Rightarrow> py_error + int" where
  "percentile aa_deltas p =
     (let aa_sorted = sort aa_deltas
      in py_subscript aa_sorted (percentile_idx (length aa_sorted) p))"


section \<open>One-sided calibration (\<open>delta_analysis.py\<close>)\<close>

datatype confidence = HIGH | MEDIUM | LOW

text \<open>
  \<open>recommend_optimal_threshold\<close> prints its results and returns nothing; the model
  returns what it prints. \<open>None\<close> is the early return after
  ``Insufficient AA data''. In the report, \<open>optimal\<close> is the threshold printed as
  ``CLEAR THRESHOLD FOUND'' (absent in the overlap case), and \<open>recommended\<close> and
  \<open>confidence\<close> are the values of the closing ``FINAL RECOMMENDATION'' block.
\<close>

record misdetection_analysis =
  misdetection_min :: int
  misdetection_mean :: rat
  optimal :: "int option"

record performance_row =
  threshold :: int
  caught_misdetections :: nat
  total_misdetections :: nat
  caught_percent :: rat
  lost_good_aa :: nat
  total_good_aa :: nat
  lost_percent :: rat

record threshold_report =
  p90 :: int
  p95 :: int
  p99 :: int
  p999 :: int
  misdetection :: "misdetection_analysis option"
  performance :: "performance_row list"
  recommended :: int
  confidence :: confidence

text \<open>
  \<^verbatim>\<open>
  if aa_misdetected:
      aa_mis_abs_deltas = [abs(d) for d in aa_misdetected]
      misdetection_min = min(aa_mis_abs_deltas)
      misdetection_mean = statistics.mean(aa_mis_abs_deltas)
      if p99 < misdetection_min:
          optimal = (p99 + misdetection_min) // 2     # CLEAR THRESHOLD FOUND
      else:                                           # OVERLAP ZONE
  \<close>
\<close>

definition analyze_misdetection_threshold ::
  "int list \<Rightarrow> int \<Rightarrow> py_error + misdetection_analysis option" where
  "analyze_misdetection_threshold aa_misdetected p99v =
     (if aa_misdetected = [] then Inr None
      else
        let aa_mis_abs_deltas = map abs aa_misdetected in
        bind_err (py_min aa_mis_abs_deltas) (\<lambda>mis_min.
        bind_err (py_mean aa_mis_abs_deltas) (\<lambda>mis_mean.
        Inr (Some \<lparr>misdetection_min = mis_min,
                    misdetection_mean = mis_mean,
                    optimal =
                      (if p99v < mis_min then Some ((p99v + mis_min) div 2) else None)\<rparr>))))"

text \<open>
  \<^verbatim>\<open>
  for name, threshold in [("Conservative", p99), ("Balanced", p95), ("Ultra-Conservative", p999)]:
      caught_misdetections = len([d for d in aa_mis_abs_deltas if d > threshold])
      total_misdetections = len(aa_mis_abs_deltas)
      lost_good_aa = len([d for d in aa_abs_deltas if d > threshold])
      total_good_aa = len(aa_abs_deltas)
      ... caught_misdetections/total_misdetections*100 ... lost_good_aa/total_good_aa*100
  \<close>
\<close>

definition performance_of ::
  "int list \<Rightarrow> int list \<Rightarrow> int \<Rightarrow> py_error + performance_row" where
  "performance_of aa_abs_deltas aa_mis_abs_deltas t =
     (let caught = length (filter (\<lambda>d. d > t) aa_mis_abs_deltas);
          total_mis = length aa_mis_abs_deltas;
          lost = length (filter (\<lambda>d. d > t) aa_abs_deltas);
          total_good = length aa_abs_deltas
      in bind_err (py_truediv caught total_mis) (\<lambda>cq.
         bind_err (py_truediv lost total_good) (\<lambda>lq.
         Inr \<lparr>threshold = t,
              caught_misdetections = caught, total_misdetections = total_mis,
              caught_percent = cq * 100,
              lost_good_aa = lost, total_good_aa = total_good,
              lost_percent = lq * 100\<rparr>)))"

definition performance_analysis ::
  "int list \<Rightarrow> int list \<Rightarrow> int list \<Rightarrow> py_error + performance_row list" where
  "performance_analysis aa_abs_deltas aa_misdetected thresholds =
     (if aa_misdetected = [] then Inr []
      else map_err (performance_of aa_abs_deltas (map abs aa_misdetected)) thresholds)"

text \<open>
  \<^verbatim>\<open>
  if aa_misdetected:
      aa_mis_abs_deltas = [abs(d) for d in aa_misdetected]
      if min(aa_mis_abs_deltas) > p99:
          recommended = p99;  confidence = "HIGH"
      elif min(aa_mis_abs_deltas) > p95:
          recommended = p95;  confidence = "MEDIUM"
      else:
          recommended = p90;  confidence = "LOW"
  else:
      recommended = p99;  confidence = "MEDIUM"
  \<close>
\<close>

definition final_recommendation ::
  "int list \<Rightarrow> int \<Rightarrow> int \<Rightarrow> int \<Rightarrow> py_error + int \<times> confidence" where
  "final_recommendation aa_misdetected p90v p95v p99v =
     (if aa_misdetected = [] then Inr (p99v, MEDIUM)
      else
        bind_err (py_min (map abs aa_misdetected)) (\<lambda>m.
          if m > p99v then Inr (p99v, HIGH)
          else bind_err (py_min (map abs aa_misdetected)) (\<lambda>m'.
            if m' > p95v then Inr (p95v, MEDIUM) else Inr (p90v, LOW))))"

definition recommend_optimal_threshold ::
  "int list \<Rightarrow> int list \<Rightarrow> int list \<Rightarrow> int list \<Rightarrow> py_error + threshold_report option" where
  "recommend_optimal_threshold aa_correct aa_misdetected aaa_correct aaa_failed =
     (if aa_correct = [] then Inr None
      else
        let aa_abs_deltas = map abs aa_correct in
        bind_err (sorted_at aa_abs_deltas (90 / 100)) (\<lambda>p90v.
        bind_err (sorted_at aa_abs_deltas (95 / 100)) (\<lambda>p95v.
        bind_err (sorted_at aa_abs_deltas (99 / 100)) (\<lambda>p99v.
        bind_err (sorted_at aa_abs_deltas (999 / 1000)) (\<lambda>p999v.
        bind_err (analyze_misdetection_threshold aa_misdetected p99v) (\<lambda>mis.
        bind_err (performance_analysis aa_abs_deltas aa_misdetected [p99v, p95v, p999v]) (\<lambda>perf.
        bind_err (final_recommendation aa_misdetected p90v p95v p99v) (\<lambda>(rec, conf).
        Inr (Some \<lparr>p90 = p90v, p95 = p95v, p99 = p99v, p999 = p999v,
                    misdetection = mis, performance = perf,
                    recommended = rec, confidence = conf\<rparr>)))))))))"

text \<open>
  The separation block of \<open>analyze_delta_patterns\<close>, reached when both lists are
  non-empty:
  \<^verbatim>\<open>
  aa_good_max = max([abs(d) for d in aa_correct])
  aa_bad_min = min(aa_mis_abs_deltas)
  if aa_good_max < aa_bad_min:   # CLEAN SEPARATION FOUND, (aa_good_max + aa_bad_min) // 2
  else:                          # OVERLAP DETECTED
  \<close>
\<close>

datatype separation = Clean_separation int | Overlap int int

definition separation_analysis :: "int list \<Rightarrow> int list \<Rightarrow> py_error + separation option" where
  "separation_analysis aa_correct aa_misdetected =
     (if aa_misdetected = [] \<or> aa_correct = [] then Inr None
      else
        bind_err (py_max (map abs aa_correct)) (\<lambda>aa_good_max.
        bind_err (py_min (map abs aa_misdetected)) (\<lambda>aa_bad_min.
          if aa_good_max < aa_bad_min
          then Inr (Some (Clean_separation ((aa_good_max + aa_bad_min) div 2)))
          else Inr (Some (Overlap aa_bad_min aa_good_max)))))"

section \<open>Two-sided calibration (\<open>dual_range_analysis.py\<close>, \<open>proper_dual_range_analysis.py\<close>)\<close>

text \<open>
  \<open>statistics.median\<close> and \<open>statistics.stdev\<close>. The sample standard deviation is a
  real number here (the scripts compute it in floating point); what matters below is when
  it raises.
\<close>

definition py_median :: "int list \<Rightarrow> py_error + rat" where
  "py_median xs =
     (let s = sort xs; n = length s
      in if n = 0 then Inl StatisticsError
         else if n mod 2 = 1 then Inr (of_int (s ! (n div 2)))
         else Inr ((of_int (s ! (n div 2 - 1)) + of_int (s ! (n div 2))) / 2))"

definition py_stdev :: "int list \<Rightarrow> py_error + real" where
  "py_stdev xs =
     (if length xs < 2 then Inl StatisticsError
      else
        let m = real_of_int (sum_list xs) / real (length xs)
        in Inr (sqrt ((\<Sum>x\<leftarrow>xs. (real_of_int x - m)\<^sup>2) / real (length xs - 1))))"

text \<open>
  One per-class block of \<open>analyze_dual_ranges\<close> (the AA block; the AAA block is the same
  code on \<open>aaa_deltas\<close> with the window 250..350):
  \<^verbatim>\<open>
  if aa_deltas:
      aa_mean = statistics.mean(aa_deltas)
      aa_median = statistics.median(aa_deltas)
      aa_std = statistics.stdev(aa_deltas) if len(aa_deltas) > 1 else 0
      aa_min, aa_max = min(aa_deltas), max(aa_deltas)
      aa_sorted = sorted(aa_deltas)
      aa_p1 = aa_sorted[int(0.01 * len(aa_sorted))]
      aa_p5 = aa_sorted[int(0.05 * len(aa_sorted))]
      aa_p95 = aa_sorted[int(0.95 * len(aa_sorted))]
      aa_p99 = aa_sorted[int(0.99 * len(aa_sorted))]
      near_zero = len([d for d in aa_deltas if -50 <= d <= 50])
      ... near_zero/len(aa_deltas)*100 ...
  \<close>
\<close>

record range_stats =
  r_mean :: rat
  r_median :: rat
  r_std :: real
  r_min :: int
  r_max :: int
  r_p1 :: int
  r_p5 :: int
  r_p95 :: int
  r_p99 :: int
  near_count :: nat
  near_percent :: rat

definition range_block :: "int \<Rightarrow> int \<Rightarrow> int list \<Rightarrow> py_error + range_stats option" where
  "range_block lo hi deltas =
     (if deltas = [] then Inr None
      else
        bind_err (py_mean deltas) (\<lambda>mean.
        bind_err (py_median deltas) (\<lambda>median.
        bind_err (if length deltas > 1 then py_stdev deltas else Inr 0) (\<lambda>std.
        bind_err (py_min deltas) (\<lambda>mn.
        bind_err (py_max deltas) (\<lambda>mx.
        bind_err (sorted_at deltas (1 / 100)) (\<lambda>q1.
        bind_err (sorted_at deltas (5 / 100)) (\<lambda>q5.
        bind_err (sorted_at deltas (95 / 100)) (\<lambda>q95.
        bind_err (sorted_at deltas (99 / 100)) (\<lambda>q99.
        let near = length (filter (\<lambda>d. lo \<le> d \<and> d \<le> hi) deltas) in
        bind_err (py_truediv near (length deltas)) (\<lambda>frac.
        Inr (Some \<lparr>r_mean = mean, r_median = median, r_std = std, r_min = mn, r_max = mx,
                    r_p1 = q1, r_p5 = q5, r_p95 = q95, r_p99 = q99,
                    near_count = near, near_percent = frac * 100\<rparr>))))))))))))"

text \<open>
  The misdetection blocks of \<open>analyze_dual_ranges\<close>:
  \<^verbatim>\<open>
  if aa_misdetections:
      aa_mis_mean = statistics.mean(aa_misdetections)
      aa_mis_range = f"{min(aa_misdetections)}mV to {max(aa_misdetections)}mV"
  \<close>
\<close>

definition misdetection_block :: "int list \<Rightarrow> py_error + (rat \<times> int \<times> int) option" where
  "misdetection_block mis =
     (if mis = [] then Inr None
      else
        bind_err (py_mean mis) (\<lambda>mean.
        bind_err (py_min mis) (\<lambda>mn.
        bind_err (py_max mis) (\<lambda>mx.
        Inr (Some (mean, mn, mx))))))"

record dual_range_analysis =
  aa_stats :: "range_stats option"
  aaa_stats :: "range_stats option"
  aa_mis_stats :: "(rat \<times> int \<times> int) option"
  aaa_mis_stats :: "(rat \<times> int \<times> int) option"

definition analyze_dual_ranges ::
  "int list \<Rightarrow> int list \<Rightarrow> int list \<Rightarrow> int list \<Rightarrow> py_error + dual_range_analysis" where
  "analyze_dual_ranges aa_deltas aaa_deltas aa_misdetections aaa_misdetections =
     bind_err (range_block (-50) 50 aa_deltas) (\<lambda>aa.
     bind_err (range_block 250 350 aaa_deltas) (\<lambda>aaa.
     bind_err (misdetection_block aa_misdetections) (\<lambda>aa_mis.
     bind_err (misdetection_block aaa_misdetections) (\<lambda>aaa_mis.
     Inr \<lparr>aa_stats = aa, aaa_stats = aaa,
          aa_mis_stats = aa_mis, aaa_mis_stats = aaa_mis\<rparr>))))"

text \<open>The four range constants a recommendation routine prints.\<close>

record range_recommendation =
  aa_min :: int
  aa_max :: int
  aaa_min :: int
  aaa_max :: int

text \<open>
  \<open>recommend_optimal_dual_ranges\<close> (\<open>proper_dual_range_analysis.py\<close>) prints the four
  constants, the separation gap when the 99\% AA range ends below the 90\% AAA range, and
  the expected coverage. Its standard deviations are computed without a guard:
  \<^verbatim>\<open>
  aa_sorted = sorted(aa_correct)
  aa_mean = statistics.mean(aa_correct)
  aa_std = statistics.stdev(aa_correct)
  ...
  if aaa_correct:
      aaa_sorted = sorted(aaa_correct)
      aaa_mean = statistics.mean(aaa_correct)
      aaa_std = statistics.stdev(aaa_correct)
      ...
  else:
      if aa_misdetected:
          aaa_proxy_mean = statistics.mean(aa_misdetected)
          aaa_proxy_std = statistics.stdev(aa_misdetected)
          recommended_aaa_min = int(aaa_proxy_mean - aaa_proxy_std)
          recommended_aaa_max = int(aaa_proxy_mean + aaa_proxy_std)
      else:
          recommended_aaa_min = 250
          recommended_aaa_max = 380
  \<close>
\<close>

record coverage_options =
  c90_lower :: int
  c90_upper :: int
  c95_lower :: int
  c95_upper :: int
  c99_lower :: int
  c99_upper :: int

definition range_options :: "int list \<Rightarrow> py_error + coverage_options" where
  "range_options ds =
     bind_err (sorted_at ds (5 / 100)) (\<lambda>l90.
     bind_err (sorted_at ds (95 / 100)) (\<lambda>u90.
     bind_err (sorted_at ds (25 / 1000)) (\<lambda>l95.
     bind_err (sorted_at ds (975 / 1000)) (\<lambda>u95.
     bind_err (sorted_at ds (5 / 1000)) (\<lambda>l99.
     bind_err (sorted_at ds (995 / 1000)) (\<lambda>u99.
     Inr \<lparr>c90_lower = l90, c90_upper = u90, c95_lower = l95, c95_upper = u95,
          c99_lower = l99, c99_upper = u99\<rparr>))))))"

definition expected_coverage :: "int list \<Rightarrow> int \<Rightarrow> int \<Rightarrow> py_error + rat" where
  "expected_coverage ds lo hi =
     (let lost = length (filter (\<lambda>d. d < lo \<or> d > hi) ds)
      in bind_err (py_truediv (length ds - lost) (length ds)) (\<lambda>q. Inr (q * 100)))"

record dual_range_report =
  ranges :: range_recommendation
  gap_size :: "int option"
  aa_coverage :: rat
  aaa_coverage :: "rat option"

definition recommend_optimal_dual_ranges ::
  "int list \<Rightarrow> int list \<Rightarrow> int list \<Rightarrow> int list \<Rightarrow> py_error + dual_range_report option" where
  "recommend_optimal_dual_ranges aa_correct aa_misdetected aaa_correct aaa_misdetected =
     (if aa_correct = [] then Inr None
      else
        bind_err (py_mean aa_correct) (\<lambda>aa_mean.
        bind_err (py_stdev aa_correct) (\<lambda>aa_std.
        bind_err (range_options aa_correct) (\<lambda>aa.
        bind_err
          (if aaa_correct \<noteq> [] then
             bind_err (py_mean aaa_correct) (\<lambda>aaa_mean.
             bind_err (py_stdev aaa_correct) (\<lambda>aaa_std.
             bind_err (range_options aaa_correct) (\<lambda>aaa.
             Inr (c95_lower aaa, c95_upper aaa,
                  (if c99_upper aa < c90_lower aaa
                   then Some (c90_lower aaa - c99_upper aa) else None)))))
           else if aa_misdetected \<noteq> [] then
             bind_err (py_mean aa_misdetected) (\<lambda>aaa_proxy_mean.
             bind_err (py_stdev aa_misdetected) (\<lambda>aaa_proxy_std.
             Inr (py_int (real_of_rat aaa_proxy_mean - aaa_proxy_std),
                  py_int (real_of_rat aaa_proxy_mean + aaa_proxy_std), None)))
           else Inr (250, 380, None)) (\<lambda>(recommended_aaa_min, recommended_aaa_max, gap).
        bind_err (expected_coverage aa_correct (c95_lower aa) (c95_upper aa)) (\<lambda>aa_cov.
        bind_err
          (if aaa_correct \<noteq> [] then
             bind_err (expected_coverage aaa_correct recommended_aaa_min recommended_aaa_max)
               (\<lambda>c. Inr (Some c))
           else Inr None) (\<lambda>aaa_cov.
        Inr (Some \<lparr>ranges = \<lparr>aa_min = c95_lower aa, aa_max = c95_upper aa,
                              aaa_min = recommended_aaa_min, aaa_max = recommended_aaa_max\<rparr>,
                    gap_size = gap, aa_coverage = aa_cov, aaa_coverage = aaa_cov\<rparr>))))))))"

section \<open>Sample extractor\<close>

text \<open>
  \<open>sub in s\<close> on Python strings: \<open>sub\<close> occurs in \<open>s\<close> as a contiguous substring.
\<close>

fun py_in :: "string \<Rightarrow> string \<Rightarrow> bool" where
  "py_in sub [] = (sub = [])"
| "py_in sub (c # cs) = (prefix sub (c # cs) \<or> py_in sub cs)"

text \<open>
  A log file is an entry of \<open>os.listdir(log_dir)\<close>: its name and its content. The content
  is represented by the matches that \<open>re.finditer(pattern, content)\<close> yields, in order:
  the status marker (group 1), the detected-type token (group 2, \<open>KLVR-AA\<close> or
  \<open>KLVR-AAA\<close>) and the signed delta (group 3, through \<open>int\<close>). Lines that do not match
  the pattern yield nothing. \<open>None\<close> is a file whose \<open>open\<close> or \<open>read\<close> raises; the
  \<open>except Exception\<close> of the loop body then skips the file.
  \<open>os.path.basename(os.path.join(log_dir, filename))\<close> is \<open>filename\<close>.
\<close>

datatype status_marker = Success_mark | Alert_mark

datatype detected_token = KLVR_AA | KLVR_AAA

type_synonym measurement = "status_marker \<times> detected_token \<times> int"

record log_file =
  filename :: string
  content :: "measurement list option"

record sample_sets =
  aa_correct_deltas :: "int list"
  aa_misdetected_deltas :: "int list"
  aaa_correct_deltas :: "int list"
  aaa_failed_deltas :: "int list"

definition no_samples :: sample_sets where
  "no_samples = \<lparr>aa_correct_deltas = [], aa_misdetected_deltas = [],
                  aaa_correct_deltas = [], aaa_failed_deltas = []\<rparr>"

text \<open>
  \<open>delta_analysis.py\<close>, \<open>extract_delta_measurements\<close>:
  \<^verbatim>\<open>
  test_type = None
  if 'aa_' in os.path.basename(log_file):
      test_type = 'aa'
  elif 'aaa_' in os.path.basename(log_file):
      test_type = 'aaa'
  else:
      continue  # Skip 'both' files as we can't determine expected type
  \<close>
\<close>

definition test_type_of :: "string \<Rightarrow> string option" where
  "test_type_of basename =
     (if py_in ''aa_'' basename then Some ''aa''
      else if py_in ''aaa_'' basename then Some ''aaa''
      else None)"

text \<open>
  \<^verbatim>\<open>
  if test_type == 'aa':
      if detected_type == 'KLVR-AA':  aa_correct_deltas.append(delta)
      else:                           aa_misdetected_deltas.append(delta)
  elif test_type == 'aaa':
      if detected_type == 'KLVR-AAA': aaa_correct_deltas.append(delta)
      else:                           aaa_failed_deltas.append(delta)
  \<close>
\<close>

definition record_match :: "string \<Rightarrow> sample_sets \<Rightarrow> measurement \<Rightarrow> sample_sets" where
  "record_match test_type acc m =
     (case m of (status, detected_type, delta) \<Rightarrow>
        if test_type = ''aa'' then
          (if detected_type = KLVR_AA
           then acc\<lparr>aa_correct_deltas := aa_correct_deltas acc @ [delta]\<rparr>
           else acc\<lparr>aa_misdetected_deltas := aa_misdetected_deltas acc @ [delta]\<rparr>)
        else if test_type = ''aaa'' then
          (if detected_type = KLVR_AAA
           then acc\<lparr>aaa_correct_deltas := aaa_correct_deltas acc @ [delta]\<rparr>
           else acc\<lparr>aaa_failed_deltas := aaa_failed_deltas acc @ [delta]\<rparr>)
        else acc)"

definition process_log_file :: "sample_sets \<Rightarrow> log_file \<Rightarrow> sample_sets" where
  "process_log_file acc f =
     (case content f of
        None \<Rightarrow> acc
      | Some matches \<Rightarrow>
          (case test_type_of (filename f) of
             None \<Rightarrow> acc
           | Some test_type \<Rightarrow> foldl (record_match test_type) acc matches))"

definition extract_delta_measurements :: "log_file list \<Rightarrow> sample_sets" where
  "extract_delta_measurements listing =
     (let log_files = filter (\<lambda>f. suffix ''.log'' (filename f)) listing
      in foldl process_log_file no_samples log_files)"

text \<open>
  \<open>proper_dual_range_analysis.py\<close>, \<open>extract_measurements_by_battery_type\<close>, sorts the
  files first and then reads each group with its own loop:
  \<^verbatim>\<open>
  for log_file in log_files:
      filename = os.path.basename(log_file)
      if 'aa_' in filename and 'aaa_' not in filename:
          aa_files.append(log_file)
      elif 'aaa_' in filename:
          aaa_files.append(log_file)
  \<close>
\<close>

definition is_aa_file :: "log_file \<Rightarrow> bool" where
  "is_aa_file f = (py_in ''aa_'' (filename f) \<and> \<not> py_in ''aaa_'' (filename f))"

definition is_aaa_file :: "log_file \<Rightarrow> bool" where
  "is_aaa_file f = (\<not> is_aa_file f \<and> py_in ''aaa_'' (filename f))"

definition process_typed_file :: "string \<Rightarrow> sample_sets \<Rightarrow> log_file \<Rightarrow> sample_sets" where
  "process_typed_file test_type acc f =
     (case content f of
        None \<Rightarrow> acc
      | Some matches \<Rightarrow> foldl (record_match test_type) acc matches)"

definition extract_measurements_by_battery_type :: "log_file list \<Rightarrow> sample_sets" where
  "extract_measurements_by_battery_type listing =
     (let log_files = filter (\<lambda>f. suffix ''.log'' (filename f)) listing;
          aa_files = filter is_aa_file log_files;
          aaa_files = filter is_aaa_file log_files
      in foldl (process_typed_file ''aaa'')
           (foldl (process_typed_file ''aa'') no_samples aa_files) aaa_files)"

section \<open>Online monitor (\<open>tools/battery-monitor.py\<close>)\<close>

text \<open>
  The status snapshot is the JSON object of the status source: an optional \<open>batteries\<close>
  array whose elements carry \<open>slotState\<close>, \<open>batteryDetected\<close> and an optional \<open>debug\<close>
  object of optional integer readings (\<open>debug.get(key, 0)\<close> reads them).
\<close>

record debug_obj =
  dbg_voltageAAA_mv :: "int option"
  dbg_voltageAA_mv :: "int option"
  dbg_voltageDelta_mv :: "int option"
  dbg_lastDetection_ms :: "int option"

record battery =
  slotState :: string
  batteryDetected :: string
  debug :: "debug_obj option"

record status_data =
  batteries :: "battery list option"

text \<open>
  \<open>get_charger_status\<close>: the request either returns the decoded snapshot or raises
  (timeout, transport failure, undecodable body); \<open>except Exception\<close> turns every raise
  into \<open>None\<close>.
\<close>

datatype fetch_exception = Timeout | Transport_failure | Parse_failure

datatype fetch_outcome = Returned status_data | Raised fetch_exception

definition get_charger_status :: "fetch_outcome \<Rightarrow> status_data option" where
  "get_charger_status outcome =
     (case outcome of Returned data \<Rightarrow> Some data | Raised e \<Rightarrow> None)"

record debug_entry =
  slot :: nat
  detected_type :: string
  voltageAAA_mv :: int
  voltageAA_mv :: int
  voltageDelta_mv :: int
  lastDetection_ms :: int

record analysis =
  total_active :: nat
  aa_count :: nat
  aaa_count :: nat
  all_debug_info :: "debug_entry list"
  misdetections :: "debug_entry list"
  correct_detections :: "debug_entry list"
  test_type :: string

definition get_or_0 :: "int option \<Rightarrow> int" where
  "get_or_0 v = (case v of None \<Rightarrow> 0 | Some n \<Rightarrow> n)"

definition make_debug_entry :: "nat \<Rightarrow> string \<Rightarrow> debug_obj \<Rightarrow> debug_entry" where
  "make_debug_entry i detected dbg =
     \<lparr>slot = i, detected_type = detected,
      voltageAAA_mv = get_or_0 (dbg_voltageAAA_mv dbg),
      voltageAA_mv = get_or_0 (dbg_voltageAA_mv dbg),
      voltageDelta_mv = get_or_0 (dbg_voltageDelta_mv dbg),
      lastDetection_ms = get_or_0 (dbg_lastDetection_ms dbg)\<rparr>"

text \<open>
  The body of \<open>for i, battery in enumerate(data['batteries'])\<close> in \<open>analyze_detection\<close>,
  on the three lists \<open>(all_debug_info, misdetections, correct_detections)\<close>:
  \<^verbatim>\<open>
  if battery['slotState'] != 'empty':
      detected_type = battery['batteryDetected']
      if 'debug' in battery:
          ...
          all_debug_info.append(debug_entry)
          if test_type == 'aa':
              if 'AAA' in detected_type:
                  misdetections.append(debug_entry)
              elif 'AA' in detected_type and 'AAA' not in detected_type:
                  correct_detections.append(debug_entry)
          elif test_type == 'aaa':
              if 'AAA' not in detected_type:
                  misdetections.append(debug_entry)
              else:
                  correct_detections.append(debug_entry)
  \<close>
\<close>

type_synonym scan_lists = "debug_entry list \<times> debug_entry list \<times> debug_entry list"

definition scan_slot :: "string \<Rightarrow> nat \<Rightarrow> battery \<Rightarrow> scan_lists \<Rightarrow> scan_lists" where
  "scan_slot mode i b acc =
     (case acc of (alls, mis, cor) \<Rightarrow>
        if slotState b = ''empty'' then (alls, mis, cor)
        else
          (case debug b of
             None \<Rightarrow> (alls, mis, cor)
           | Some dbg \<Rightarrow>
               let detected = batteryDetected b;
                   debug_entry = make_debug_entry i detected dbg;
                   alls' = alls @ [debug_entry]
               in
                 if mode = ''aa'' then
                   (if py_in ''AAA'' detected then (alls', mis @ [debug_entry], cor)
                    else if py_in ''AA'' detected \<and> \<not> py_in ''AAA'' detected
                      then (alls', mis, cor @ [debug_entry])
                    else (alls', mis, cor))
                 else if mode = ''aaa'' then
                   (if \<not> py_in ''AAA'' detected then (alls', mis @ [debug_entry], cor)
                    else (alls', mis, cor @ [debug_entry]))
                 else (alls', mis, cor)))"

fun scan_batteries :: "string \<Rightarrow> nat \<Rightarrow> battery list \<Rightarrow> scan_lists \<Rightarrow> scan_lists" where
  "scan_batteries mode i [] acc = acc"
| "scan_batteries mode i (b # bs) acc =
     scan_batteries mode (Suc i) bs (scan_slot mode i b acc)"

definition analyze_detection :: "status_data option \<Rightarrow> string \<Rightarrow> analysis option" where
  "analyze_detection data mode =
     (case data of
        None \<Rightarrow> None
      | Some d \<Rightarrow>
          (case batteries d of
             None \<Rightarrow> None
           | Some bs \<Rightarrow>
               let active_batteries = filter (\<lambda>b. slotState b \<noteq> ''empty'') bs;
                   aa = length (filter (\<lambda>b. py_in ''AA'' (batteryDetected b)
                                          \<and> \<not> py_in ''AAA'' (batteryDetected b))
                                 active_batteries);
                   aaa = length (filter (\<lambda>b. py_in ''AAA'' (batteryDetected b))
                                  active_batteries)
               in (case scan_batteries mode 0 bs ([], [], []) of (alls, mis, cor) \<Rightarrow>
                     Some \<lparr>total_active = length active_batteries,
                           aa_count = aa, aaa_count = aaa,
                           all_debug_info = alls, misdetections = mis,
                           correct_detections = cor, test_type = mode\<rparr>)))"

text \<open>
  The lines the monitor writes. A line is represented by what is interpolated into its
  format string; the wall-clock timestamp of the summary line is left out.
\<close>

datatype indicator = Siren | Check_mark | Chart

datatype alert_kind = AA_misdetection_alert | AAA_detection_failure | Detection_issue

datatype line =
    Connection_failed nat
  | AA_test_line nat nat nat nat bool
  | AAA_test_line nat nat nat nat bool
  | Both_line nat nat nat nat
  | Voltage_line indicator debug_entry
  | Alert_line alert_kind nat
  | Detail_line debug_entry
  | Battery_count_line nat nat

text \<open>
  \<open>format_detection_line\<close>: ``Connection failed'' for no analysis; otherwise the summary
  of the mode, with reading number, total, the two counts and (in the test modes) whether
  the status is the misdetection one.
\<close>

definition format_detection_line :: "nat \<Rightarrow> analysis option \<Rightarrow> line" where
  "format_detection_line n a_opt =
     (case a_opt of
        None \<Rightarrow> Connection_failed n
      | Some a \<Rightarrow>
          let misdetection_count = length (misdetections a);
              correct_count = length (correct_detections a)
          in if test_type a = ''aa''
             then AA_test_line n (total_active a) correct_count misdetection_count
                    (misdetection_count > 0)
             else if test_type a = ''aaa''
             then AAA_test_line n (total_active a) correct_count misdetection_count
                    (misdetection_count > 0)
             else Both_line n (total_active a) (aa_count a) (aaa_count a))"

definition voltage_line :: "string \<Rightarrow> debug_entry \<Rightarrow> line" where
  "voltage_line mode e =
     Voltage_line
       (if mode = ''aa'' then (if py_in ''AAA'' (detected_type e) then Siren else Check_mark)
        else if mode = ''aaa'' then (if py_in ''AAA'' (detected_type e) then Check_mark else Siren)
        else Chart) e"

definition alert_msg :: "string \<Rightarrow> nat \<Rightarrow> line" where
  "alert_msg mode n =
     Alert_line (if mode = ''aa'' then AA_misdetection_alert
                 else if mode = ''aaa'' then AAA_detection_failure
                 else Detection_issue) n"

text \<open>
  The lines of one pass through the body of \<open>while True\<close> in \<open>main\<close>, in the order
  written: the summary line; the per-slot voltage lines (when there is debug info and the
  reading number is 1 modulo 10 or there is a misdetection); the alert and the detail line
  of each misdetection; the battery-count change.
\<close>

definition cycle_lines :: "string \<Rightarrow> nat \<Rightarrow> analysis option \<Rightarrow> analysis option \<Rightarrow> line list" where
  "cycle_lines mode n a_opt previous =
     [format_detection_line n a_opt]
     @ (case a_opt of
          None \<Rightarrow> []
        | Some a \<Rightarrow>
            if all_debug_info a \<noteq> [] \<and> (n mod 10 = 1 \<or> length (misdetections a) > 0)
            then map (voltage_line mode) (all_debug_info a) else [])
     @ (case a_opt of
          None \<Rightarrow> []
        | Some a \<Rightarrow>
            if length (misdetections a) > 0
            then alert_msg mode (length (misdetections a)) # map Detail_line (misdetections a)
            else [])
     @ (case previous of
          None \<Rightarrow> []
        | Some l \<Rightarrow>
            (case a_opt of
               None \<Rightarrow> []
             | Some a \<Rightarrow>
                 if total_active a = total_active l then []
                 else [Battery_count_line (total_active l) (total_active a)]))"

text \<open>
  The state of a run: the reading counter, the previous analysis and the two sinks (what
  was printed and what was written to the log file; every line goes to both).
\<close>

record session =
  reading_num :: nat
  last_analysis :: "analysis option"
  console :: "line list"
  log_file_lines :: "line list"

definition monitor_cycle :: "string \<Rightarrow> fetch_outcome \<Rightarrow> session \<Rightarrow> session" where
  "monitor_cycle mode outcome s =
     (let data = get_charger_status outcome;
          a_opt = analyze_detection data mode;
          lines = cycle_lines mode (reading_num s) a_opt (last_analysis s)
      in \<lparr>reading_num = reading_num s + 1,
          last_analysis = a_opt,
          console = console s @ lines,
          log_file_lines = log_file_lines s @ lines\<rparr>)"

text \<open>
  The loop runs until it is interrupted; a run is the list of fetch outcomes of the
  cycles it performed.
\<close>

fun run_cycles :: "string \<Rightarrow> fetch_outcome list \<Rightarrow> session \<Rightarrow> session" where
  "run_cycles mode [] s = s"
| "run_cycles mode (outcome # rest) s = run_cycles mode rest (monitor_cycle mode outcome s)"

definition initial_session :: session where
  "initial_session = \<lparr>reading_num = 1, last_analysis = None, console = [], log_file_lines = []\<rparr>"

text \<open>The slot a per-slot line is about.\<close>

fun line_slot :: "line \<Rightarrow> nat option" where
  "line_slot (Voltage_line ind e) = Some (slot e)"
| "line_slot (Detail_line e) = Some (slot e)"
| "line_slot other = None"

fun is_alert_or_detail :: "line \<Rightarrow> bool" where
  "is_alert_or_detail (Alert_line k n) = True"
| "is_alert_or_detail (Detail_line e) = True"
| "is_alert_or_detail other = False"

text \<open>
  What one slot appends to each of the three lists; used to state the invariant of the
  scanning loop.
\<close>

definition slot_all :: "nat \<Rightarrow> battery \<Rightarrow> debug_entry list" where
  "slot_all i b =
     (if slotState b = ''empty'' then []
      else (case debug b of None \<Rightarrow> []
            | Some dbg \<Rightarrow> [make_debug_entry i (batteryDetected b) dbg]))"

definition flags_misdetection :: "string \<Rightarrow> string \<Rightarrow> bool" where
  "flags_misdetection mode detected =
     (mode = ''aa'' \<and> py_in ''AAA'' detected \<or> mode = ''aaa'' \<and> \<not> py_in ''AAA'' detected)"

definition flags_correct :: "string \<Rightarrow> string \<Rightarrow> bool" where
  "flags_correct mode detected =
     (mode = ''aa'' \<and> py_in ''AA'' detected \<and> \<not> py_in ''AAA'' detected
      \<or> mode = ''aaa'' \<and> py_in ''AAA'' detected)"

text \<open>The entries of all slots from index \<open>i\<close> on, in slot order.\<close>

definition all_entries :: "nat \<Rightarrow> battery list \<Rightarrow> debug_entry list" where
  "all_entries i bs = concat (map (\<lambda>(k, b). slot_all k b) (enumerate i bs))"

section \<open>Properties of the percentile estimator\<close>

lemma py_int_nonneg: "0 \<le> r \<Longrightarrow> py_int r = \<lfloor>r\<rfloor>"
  by (simp add: py_int_def)

lemma percentile_idx_bounds:
  assumes "0 < n" and "0 \<le> p"
  shows "0 \<le> percentile_idx n p \<and> percentile_idx n p < int n"
proof -
  have "0 \<le> p / 100 * of_nat n" using assms by simp
  then have "0 \<le> py_int (p / 100 * of_nat n)" by (simp add: py_int_nonneg)
  then show ?thesis using assms by (auto simp: percentile_idx_def Let_def)
qed

lemma percentile_idx_0: "0 < n \<Longrightarrow> percentile_idx n 0 = 0"
  by (simp add: percentile_idx_def py_int_def)

lemma percentile_idx_100: "0 < n \<Longrightarrow> percentile_idx n 100 = int n - 1"
  by (simp add: percentile_idx_def py_int_def)

lemma sorted_nth_0_Min:
  assumes "sorted ys" and "ys \<noteq> []"
  shows "ys ! 0 = Min (set ys)"
proof -
  obtain y rest where ys: "ys = y # rest" using assms(2) by (cases ys) auto
  then have "\<forall>z \<in> set ys. y \<le> z" using assms(1) by auto
  then have "Min (set ys) = y" using ys by (intro Min_eqI) auto
  then show ?thesis using ys by simp
qed

lemma sorted_last_Max:
  assumes "sorted ys" and "ys \<noteq> []"
  shows "ys ! (length ys - 1) = Max (set ys)"
proof -
  have "\<forall>z \<in> set ys. z \<le> last ys"
  proof
    fix z assume "z \<in> set ys"
    then obtain i where i: "i < length ys" "ys ! i = z" by (auto simp: in_set_conv_nth)
    then have "ys ! i \<le> ys ! (length ys - 1)"
      using assms(1) by (intro sorted_nth_mono) auto
    then show "z \<le> last ys" using i assms(2) by (simp add: last_conv_nth)
  qed
  then have "Max (set ys) = last ys" using assms(2) by (intro Max_eqI) auto
  then show ?thesis using assms(2) by (simp add: last_conv_nth)
qed

text \<open>
  C7. For every non-empty integer sequence the floor-index percentile (value at sorted index
  \<open>floor(p/100 * n)\<close>, clamped to the last valid index) is the minimum at \<open>p = 0\<close> and
  the maximum at \<open>p = 100\<close>, and for every \<open>p\<close> in \<open>[0, 100]\<close> the subscript lies in
  \<open>0 .. n-1\<close>, so the read succeeds and returns an element of the sequence.
\<close>

theorem percentile_min_max_in_bounds:
  assumes "xs \<noteq> []"
  shows "percentile xs 0 = Inr (Min (set xs))
       \<and> percentile xs 100 = Inr (Max (set xs))
       \<and> (\<forall>p. 0 \<le> p \<and> p \<le> 100 \<longrightarrow>
             0 \<le> percentile_idx (length xs) p
           \<and> percentile_idx (length xs) p < int (length xs)
           \<and> (\<exists>v \<in> set xs. percentile xs p = Inr v))"
proof -
  let ?ys = "sort xs"
  have n: "0 < length xs" using assms by simp
  have "length ?ys \<noteq> 0" using n by simp
  then have ne: "?ys \<noteq> []" by (simp only: length_0_conv not_False_eq_True)
  have ys: "sorted ?ys" "?ys \<noteq> []" "set ?ys = set xs" "length ?ys = length xs"
    using ne by simp_all
  have p0: "percentile xs 0 = Inr (Min (set xs))"
    using sorted_nth_0_Min[OF ys(1,2)] n
    by (simp add: percentile_def py_subscript_def percentile_idx_0 ys(3))
  have "percentile xs 100 = Inr (?ys ! (length xs - 1))"
    using n by (simp add: percentile_def py_subscript_def percentile_idx_100 nat_diff_distrib')
  then have p100: "percentile xs 100 = Inr (Max (set xs))"
    using sorted_last_Max[OF ys(1,2)] by (simp add: ys(3))
  have rest: "0 \<le> percentile_idx (length xs) p
              \<and> percentile_idx (length xs) p < int (length xs)
              \<and> (\<exists>v \<in> set xs. percentile xs p = Inr v)" if "0 \<le> p" for p
  proof -
    have b: "0 \<le> percentile_idx (length xs) p" "percentile_idx (length xs) p < int (length xs)"
      using percentile_idx_bounds[OF n that] by simp_all
    then have "percentile xs p = Inr (?ys ! nat (percentile_idx (length xs) p))"
      by (simp add: percentile_def py_subscript_def)
    moreover have "?ys ! nat (percentile_idx (length xs) p) \<in> set ?ys"
      using b by (intro nth_mem) (simp add: nat_less_iff)
    ultimately show ?thesis using b ys(3) by auto
  qed
  show ?thesis using p0 p100 rest by blast
qed

theorem percentile_min_max_in_bounds_witness:
  "[7, -3, 5 :: int] \<noteq> []
   \<and> percentile [7, -3, 5] 0 = Inr (-3)
   \<and> percentile [7, -3, 5] 100 = Inr 7
   \<and> (\<exists>v \<in> set [7, -3, 5]. percentile [7, -3, 5] 50 = Inr v)"
  using percentile_min_max_in_bounds[of "[7, -3, 5]"] by simp

section \<open>Properties of the one-sided calibration\<close>

lemma bind_err_Inr [simp]: "bind_err (Inr v) f = f v"
  by (simp add: bind_err_def)

lemma bind_err_Inl [simp]: "bind_err (Inl e) f = Inl e"
  by (simp add: bind_err_def)

lemma sorted_at_Inr:
  assumes "ds \<noteq> []" and "0 \<le> c" and "c < 1"
  shows "sorted_at ds c = Inr (sort ds ! nat \<lfloor>c * of_nat (length ds)\<rfloor>)"
    and "nat \<lfloor>c * of_nat (length ds)\<rfloor> < length ds"
proof -
  let ?n = "length ds"
  have n: "0 < ?n" using assms(1) by simp
  have nn: "0 \<le> c * of_nat ?n" using assms(2) by simp
  have "c * of_nat ?n < of_nat ?n" using assms(3) n by simp
  then have "\<lfloor>c * of_nat ?n\<rfloor> < int ?n" by (simp add: floor_less_iff)
  moreover have "0 \<le> \<lfloor>c * of_nat ?n\<rfloor>" using nn by simp
  ultimately show "sorted_at ds c = Inr (sort ds ! nat \<lfloor>c * of_nat ?n\<rfloor>)"
    and "nat \<lfloor>c * of_nat (length ds)\<rfloor> < length ds"
    using nn by (simp_all add: sorted_at_def py_subscript_def py_int_nonneg nat_less_iff)
qed

lemma py_min_Inr: "xs \<noteq> [] \<Longrightarrow> py_min xs = Inr (Min (set xs))"
proof (cases xs)
  case Nil
  assume "xs \<noteq> []"
  with Nil show ?thesis by simp
next
  case (Cons y ys)
  then show ?thesis using Min.set_eq_fold[of y ys] by (simp add: py_min_def)
qed

lemma py_max_Inr: "xs \<noteq> [] \<Longrightarrow> py_max xs = Inr (Max (set xs))"
proof (cases xs)
  case Nil
  assume "xs \<noteq> []"
  with Nil show ?thesis by simp
next
  case (Cons y ys)
  then show ?thesis using Max.set_eq_fold[of y ys] by (simp add: py_max_def)
qed

lemma performance_of_Inr:
  "good \<noteq> [] \<Longrightarrow> mis \<noteq> [] \<Longrightarrow> \<exists>row. performance_of good mis t = Inr row"
  by (simp add: performance_of_def Let_def py_truediv_def)

lemma performance_analysis_Inr:
  assumes "good \<noteq> []"
  shows "\<exists>rows. performance_analysis good mis [a, b, c] = Inr rows"
proof (cases "mis = []")
  case True
  then show ?thesis by (simp add: performance_analysis_def)
next
  case False
  then have m: "map abs mis \<noteq> []" by simp
  obtain ra rb rc where
    "performance_of good (map abs mis) a = Inr ra"
    "performance_of good (map abs mis) b = Inr rb"
    "performance_of good (map abs mis) c = Inr rc"
    using performance_of_Inr[OF assms m] by metis
  then show ?thesis using False by (simp add: performance_analysis_def)
qed

lemma analyze_misdetection_threshold_Inr:
  "\<exists>m. analyze_misdetection_threshold mis p = Inr m"
  by (cases "mis = []") (simp_all add: analyze_misdetection_threshold_def py_min_Inr py_mean_def Let_def)

lemma final_recommendation_eq:
  "final_recommendation mis a b c =
     Inr (if mis = [] then (c, MEDIUM)
          else if Min (abs ` set mis) > c then (c, HIGH)
          else if Min (abs ` set mis) > b then (b, MEDIUM)
          else (a, LOW))"
  by (cases "mis = []") (simp_all add: final_recommendation_def py_min_Inr)

text \<open>
  On correct-A deltas \<open>[-10, -5, 0, 5, 10]\<close> and misdetected deltas \<open>[280, 300, 320]\<close>
  the threshold that \<open>recommend_optimal_threshold\<close> recommends in its closing block is
  the 99th-percentile boundary 10, with confidence \<open>HIGH\<close>; it is not the midpoint 145.
\<close>

theorem final_recommendation_is_p99_not_midpoint:
  "map_sum id (map_option recommended)
     (recommend_optimal_threshold [-10, -5, 0, 5, 10] [280, 300, 320] [] []) = Inr (Some 10)
   \<and> map_sum id (map_option recommended)
     (recommend_optimal_threshold [-10, -5, 0, 5, 10] [280, 300, 320] [] []) \<noteq> Inr (Some 145)
   \<and> map_sum id (map_option confidence)
     (recommend_optimal_threshold [-10, -5, 0, 5, 10] [280, 300, 320] [] []) = Inr (Some HIGH)"
  by code_simp

text \<open>
  C2 (as amended). On correct-A deltas \<open>[-10, -5, 0, 5, 10]\<close> and misdetected deltas
  \<open>[280, 300, 320]\<close> the 99th-percentile absolute boundary is 10, the minimum
  misdetection magnitude is 280, the boundary is strictly below it (a clear threshold is
  found, the separation is clean) and the clear threshold reported is the midpoint 145,
  both in \<open>recommend_optimal_threshold\<close> (\<open>optimal\<close>) and in the separation block of
  \<open>analyze_delta_patterns\<close>; the threshold finally recommended is the 99th-percentile
  boundary 10, with confidence \<open>HIGH\<close>.
\<close>

theorem one_sided_example:
  "sorted_at (map abs [-10, -5, 0, 5, 10]) (99 / 100) = Inr 10
   \<and> py_min (map abs [280, 300, 320]) = Inr 280
   \<and> recommend_optimal_threshold [-10, -5, 0, 5, 10] [280, 300, 320] [] []
       = Inr (Some \<lparr>p90 = 10, p95 = 10, p99 = 10, p999 = 10,
                     misdetection = Some \<lparr>misdetection_min = 280, misdetection_mean = 300,
                                            optimal = Some 145\<rparr>,
                     performance =
                       [\<lparr>threshold = 10, caught_misdetections = 3, total_misdetections = 3,
                          caught_percent = 100, lost_good_aa = 0, total_good_aa = 5,
                          lost_percent = 0\<rparr>,
                        \<lparr>threshold = 10, caught_misdetections = 3, total_misdetections = 3,
                          caught_percent = 100, lost_good_aa = 0, total_good_aa = 5,
                          lost_percent = 0\<rparr>,
                        \<lparr>threshold = 10, caught_misdetections = 3, total_misdetections = 3,
                          caught_percent = 100, lost_good_aa = 0, total_good_aa = 5,
                          lost_percent = 0\<rparr>],
                     recommended = 10, confidence = HIGH\<rparr>)
   \<and> separation_analysis [-10, -5, 0, 5, 10] [280, 300, 320]
       = Inr (Some (Clean_separation 145))"
  by code_simp

text \<open>
  C3. For a non-empty correct-A set the calibration returns a report. With a non-empty
  misdetection set its grade is \<open>HIGH\<close> exactly when the 99th-percentile absolute boundary
  is strictly below the minimum misdetection magnitude, \<open>MEDIUM\<close> exactly when only the
  95th-percentile boundary is, and \<open>LOW\<close> otherwise. With an empty misdetection set it
  raises nothing, recommends the 99th-percentile boundary and grades \<open>MEDIUM\<close>.
\<close>

theorem confidence_grading:
  assumes "aa_correct \<noteq> []"
  shows "\<exists>r. recommend_optimal_threshold aa_correct aa_misdetected aaa_correct aaa_failed
               = Inr (Some r)
     \<and> sorted_at (map abs aa_correct) (99 / 100) = Inr (p99 r)
     \<and> sorted_at (map abs aa_correct) (95 / 100) = Inr (p95 r)
     \<and> (if aa_misdetected = [] then recommended r = p99 r \<and> confidence r = MEDIUM
        else (confidence r = HIGH) = (p99 r < Min (abs ` set aa_misdetected))
           \<and> (confidence r = MEDIUM) =
               (\<not> p99 r < Min (abs ` set aa_misdetected) \<and> p95 r < Min (abs ` set aa_misdetected))
           \<and> (confidence r = LOW) =
               (\<not> p99 r < Min (abs ` set aa_misdetected)
                \<and> \<not> p95 r < Min (abs ` set aa_misdetected)))"
proof -
  let ?abs = "map abs aa_correct"
  have ne: "?abs \<noteq> []" using assms by simp
  obtain v90 v95 v99 v999 where v:
    "sorted_at ?abs (90 / 100) = Inr v90" "sorted_at ?abs (95 / 100) = Inr v95"
    "sorted_at ?abs (99 / 100) = Inr v99" "sorted_at ?abs (999 / 1000) = Inr v999"
    using sorted_at_Inr(1)[OF ne] by simp
  obtain mis where mis: "analyze_misdetection_threshold aa_misdetected v99 = Inr mis"
    using analyze_misdetection_threshold_Inr by blast
  obtain perf where perf:
    "performance_analysis ?abs aa_misdetected [v99, v95, v999] = Inr perf"
    using performance_analysis_Inr[OF ne] by blast
  show ?thesis
    using assms v mis perf
    by (simp add: recommend_optimal_threshold_def final_recommendation_eq)
qed


theorem confidence_grading_witness:
  "[-10, -5, 0, 5, 10 :: int] \<noteq> []
   \<and> (\<exists>r. recommend_optimal_threshold [-10, -5, 0, 5, 10] [8, -300] [] [] = Inr (Some r)
          \<and> p99 r = 10 \<and> p95 r = 10 \<and> confidence r = LOW)"
proof -
  have b99: "sorted_at (map abs [-10, -5, 0, 5, 10]) (99 / 100) = Inr 10" by code_simp
  have b95: "sorted_at (map abs [-10, -5, 0, 5, 10]) (95 / 100) = Inr 10" by code_simp
  show ?thesis
    using confidence_grading[of "[-10, -5, 0, 5, 10]" "[8, -300]" "[]" "[]"] b99 b95
    by auto
qed

section \<open>Properties of the two-sided calibration\<close>

lemma recommend_optimal_dual_ranges_single:
  "recommend_optimal_dual_ranges [x] aa_misdetected aaa_correct aaa_misdetected
     = Inl StatisticsError"
  by (simp add: recommend_optimal_dual_ranges_def py_mean_def py_stdev_def)

lemma range_block_single:
  "\<exists>b. range_block lo hi [x] = Inr (Some b) \<and> r_std b = 0"
  by (simp add: range_block_def py_mean_def py_median_def py_min_def py_max_def
      sorted_at_def py_subscript_def py_int_def py_truediv_def)

text \<open>
  C4. A one-element sample set must not make a routine that computes a standard deviation
  raise; the value 0 is to be used instead. \<open>analyze_dual_ranges\<close> does so (its guard
  \<open>if len(aa_deltas) > 1 else 0\<close>), but \<open>recommend_optimal_dual_ranges\<close> calls
  \<open>statistics.stdev\<close> without the guard: on the one-element set \<open>[5]\<close> it raises
  \<open>StatisticsError\<close>.
\<close>

theorem single_sample_stdev_raises:
  "recommend_optimal_dual_ranges [5] [] [] [] = Inl StatisticsError
   \<and> (\<exists>a. analyze_dual_ranges [5] [] [] [] = Inr a
          \<and> map_option r_std (aa_stats a) = Some 0)"
  by (simp add: recommend_optimal_dual_ranges_def analyze_dual_ranges_def
      misdetection_block_def range_block_def py_mean_def py_median_def py_stdev_def
      py_min_def py_max_def sorted_at_def py_subscript_def py_int_def py_truediv_def)

section \<open>Properties of the sample extractor\<close>

text \<open>
  Every name that contains \<open>aaa_\<close> contains \<open>aa_\<close>, so the first test of
  \<open>extract_delta_measurements\<close> takes every class-B file for a class-A file and its
  \<open>elif\<close> branch is never reached.
\<close>

lemma py_in_aaa_imp_aa: "py_in ''aaa_'' s \<Longrightarrow> py_in ''aa_'' s"
proof (induction s)
  case Nil
  then show ?case by simp
next
  case (Cons c cs)
  show ?case
  proof (cases "prefix ''aaa_'' (c # cs)")
    case True
    then obtain r where "c # cs = ''aaa_'' @ r" by (auto simp: prefix_def)
    then have "c = CHR ''a''" "cs = ''aa_'' @ r" by simp_all
    then have "prefix ''aa_'' cs" by simp
    then have "py_in ''aa_'' cs" by (cases cs) auto
    then show ?thesis by simp
  next
    case False
    then have "py_in ''aaa_'' cs" using Cons.prems by (simp only: py_in.simps) blast
    then have "py_in ''aa_'' cs" by (rule Cons.IH)
    then show ?thesis by (simp only: py_in.simps) blast
  qed
qed

lemma test_type_of_never_aaa: "test_type_of n \<noteq> Some ''aaa''"
  using py_in_aaa_imp_aa[of n] by (simp add: test_type_of_def)

lemma unhinted_file_skipped:
  "\<not> py_in ''aa_'' (filename f) \<Longrightarrow> process_log_file acc f = acc"
  using py_in_aaa_imp_aa[of "filename f"]
  by (auto simp: process_log_file_def test_type_of_def split: option.splits)

lemma record_match_aaa_keeps_class_A:
  "aa_correct_deltas (record_match ''aaa'' acc m) = aa_correct_deltas acc
   \<and> aa_misdetected_deltas (record_match ''aaa'' acc m) = aa_misdetected_deltas acc"
  by (cases m) (simp add: record_match_def)

text \<open>
  C1. A file whose name carries the class-B hint \<open>aaa_\<close> must have each of its
  measurement lines assigned to a class-B set (correct-B for the token \<open>KLVR-AAA\<close>,
  B-misdetected-as-A otherwise) and never to a class-A set.
  \<open>extract_measurements_by_battery_type\<close> does so. \<open>extract_delta_measurements\<close>
  does not: for the file \<open>detection_monitor_aaa_20250101_120000.log\<close> with one
  \<open>KLVR-AAA\<close> line (delta 300) and one \<open>KLVR-AA\<close> line (delta 4) it puts 300 into
  A-misdetected-as-B and 4 into correct-A, and leaves both class-B sets empty.
\<close>

theorem class_B_file_lands_in_class_A_sets:
  "extract_delta_measurements
     [\<lparr>filename = ''detection_monitor_aaa_20250101_120000.log'',
       content = Some [(Success_mark, KLVR_AAA, 300), (Alert_mark, KLVR_AA, 4)]\<rparr>]
   = \<lparr>aa_correct_deltas = [4], aa_misdetected_deltas = [300],
      aaa_correct_deltas = [], aaa_failed_deltas = []\<rparr>
   \<and> extract_measurements_by_battery_type
     [\<lparr>filename = ''detection_monitor_aaa_20250101_120000.log'',
       content = Some [(Success_mark, KLVR_AAA, 300), (Alert_mark, KLVR_AA, 4)]\<rparr>]
   = \<lparr>aa_correct_deltas = [], aa_misdetected_deltas = [],
      aaa_correct_deltas = [300], aaa_failed_deltas = [4]\<rparr>"
  by code_simp

section \<open>Properties of the online monitor\<close>

subsection \<open>The scanning loop of \<open>analyze_detection\<close>\<close>

lemma scan_slot_appends:
  "scan_slot mode i b (a, m, c) =
     (a @ slot_all i b,
      m @ filter (\<lambda>e. flags_misdetection mode (detected_type e)) (slot_all i b),
      c @ filter (\<lambda>e. flags_correct mode (detected_type e)) (slot_all i b))"
  by (auto simp: scan_slot_def slot_all_def flags_misdetection_def flags_correct_def
      make_debug_entry_def Let_def split: option.splits)

lemma scan_batteries_appends:
  "scan_batteries mode i bs (a, m, c) =
     (a @ all_entries i bs,
      m @ filter (\<lambda>e. flags_misdetection mode (detected_type e)) (all_entries i bs),
      c @ filter (\<lambda>e. flags_correct mode (detected_type e)) (all_entries i bs))"
proof (induction bs arbitrary: i a m c)
  case Nil
  then show ?case by (simp add: all_entries_def)
next
  case (Cons b bs)
  show ?case
    by (simp add: scan_slot_appends Cons.IH all_entries_def)
qed

lemma slot_all_entry:
  "e \<in> set (slot_all k b) \<Longrightarrow>
     slot e = k \<and> detected_type e = batteryDetected b
     \<and> slotState b \<noteq> ''empty'' \<and> debug b \<noteq> None"
  by (cases "debug b") (auto simp: slot_all_def make_debug_entry_def split: if_splits)

lemma all_entries_entry:
  "e \<in> set (all_entries i bs) \<Longrightarrow>
     \<exists>k < length bs. slot e = i + k \<and> e \<in> set (slot_all (i + k) (bs ! k))"
proof (induction bs arbitrary: i)
  case Nil
  then show ?case by (simp add: all_entries_def)
next
  case (Cons b bs)
  from Cons.prems have "e \<in> set (slot_all i b) \<or> e \<in> set (all_entries (Suc i) bs)"
    by (simp add: all_entries_def)
  then show ?case
  proof
    assume h: "e \<in> set (slot_all i b)"
    then have "slot e = i" using slot_all_entry by blast
    with h show ?thesis by (intro exI[of _ 0]) simp
  next
    assume "e \<in> set (all_entries (Suc i) bs)"
    from Cons.IH[OF this] obtain k where
      "k < length bs" "slot e = Suc i + k" "e \<in> set (slot_all (Suc i + k) (bs ! k))"
      by blast
    then show ?thesis by (intro exI[of _ "Suc k"]) simp
  qed
qed

lemma concat_enumerate_empty:
  "\<forall>k < length bs. f (i + k) (bs ! k) = [] \<Longrightarrow>
     concat (map (\<lambda>(k, b). f k b) (enumerate i bs)) = []"
proof (induction bs arbitrary: i)
  case Nil
  then show ?case by simp
next
  case (Cons b bs)
  have "f i b = []" using Cons.prems[rule_format, of 0] by simp
  moreover have "\<forall>k < length bs. f (Suc i + k) (bs ! k) = []"
  proof (intro allI impI)
    fix k assume "k < length bs"
    then show "f (Suc i + k) (bs ! k) = []" using Cons.prems[rule_format, of "Suc k"] by simp
  qed
  ultimately show ?case using Cons.IH[of "Suc i"] by simp
qed

lemma all_entries_single:
  assumes "j < length bs"
    and "\<forall>k < length bs. k \<noteq> j \<longrightarrow> f (i + k) (bs ! k) = []"
  shows "concat (map (\<lambda>(k, b). f k b) (enumerate i bs)) = f (i + j) (bs ! j)"
  using assms
proof (induction bs arbitrary: i j)
  case Nil
  then show ?case by simp
next
  case (Cons b bs)
  show ?case
  proof (cases j)
    case 0
    have "\<forall>k < length bs. f (Suc i + k) (bs ! k) = []"
    proof (intro allI impI)
      fix k assume "k < length bs"
      then have "f (i + Suc k) ((b # bs) ! Suc k) = []"
        using Cons.prems(2) 0 by (metis Suc_less_eq length_Cons nat.distinct(1))
      then show "f (Suc i + k) (bs ! k) = []" by simp
    qed
    then have "concat (map (\<lambda>(k, b). f k b) (enumerate (Suc i) bs)) = []"
      by (rule concat_enumerate_empty)
    then show ?thesis using 0 by simp
  next
    case (Suc j')
    have j': "j' < length bs" using Cons.prems(1) Suc by simp
    have rest: "\<forall>k < length bs. k \<noteq> j' \<longrightarrow> f (Suc i + k) (bs ! k) = []"
    proof (intro allI impI)
      fix k assume "k < length bs" "k \<noteq> j'"
      then have "f (i + Suc k) ((b # bs) ! Suc k) = []"
        using Cons.prems(2) Suc by (metis Suc_less_eq length_Cons nat.inject)
      then show "f (Suc i + k) (bs ! k) = []" by simp
    qed
    have "f i b = []" using Cons.prems(2)[rule_format, of 0] Suc by simp
    then show ?thesis using Cons.IH[OF j' rest] Suc by simp
  qed
qed

lemma analyze_detection_Some:
  "analyze_detection (Some \<lparr>batteries = Some bs\<rparr>) mode =
     Some \<lparr>total_active = length (filter (\<lambda>b. slotState b \<noteq> ''empty'') bs),
           aa_count = length (filter (\<lambda>b. py_in ''AA'' (batteryDetected b)
                                          \<and> \<not> py_in ''AAA'' (batteryDetected b))
                               (filter (\<lambda>b. slotState b \<noteq> ''empty'') bs)),
           aaa_count = length (filter (\<lambda>b. py_in ''AAA'' (batteryDetected b))
                                (filter (\<lambda>b. slotState b \<noteq> ''empty'') bs)),
           all_debug_info = all_entries 0 bs,
           misdetections =
             filter (\<lambda>e. flags_misdetection mode (detected_type e)) (all_entries 0 bs),
           correct_detections =
             filter (\<lambda>e. flags_correct mode (detected_type e)) (all_entries 0 bs),
           test_type = mode\<rparr>"
  by (simp add: analyze_detection_def scan_batteries_appends)

lemma analyze_detection_cases:
  "analyze_detection data mode = None
   \<or> (\<exists>bs. data = Some \<lparr>batteries = Some bs\<rparr>)"
proof (cases data)
  case None
  then show ?thesis by (simp add: analyze_detection_def)
next
  case (Some d)
  show ?thesis
  proof (cases "batteries d")
    case None
    with Some show ?thesis by (simp add: analyze_detection_def)
  next
    case (Some bs)
    then have "d = \<lparr>batteries = Some bs\<rparr>" by (cases d) simp
    with \<open>data = Some d\<close> show ?thesis by blast
  qed
qed

lemma both_flags_nothing: "\<not> flags_misdetection ''both'' d"
  by (simp add: flags_misdetection_def)

lemma both_misdetections_empty:
  "analyze_detection data ''both'' = Some a \<Longrightarrow> misdetections a = [] \<and> test_type a = ''both''"
  using analyze_detection_cases[of data "''both''"]
  by (auto simp: analyze_detection_Some both_flags_nothing)

lemma voltage_line_not_alert: "\<not> is_alert_or_detail (voltage_line mode e)"
  by (simp add: voltage_line_def)

lemma format_line_not_alert: "\<not> is_alert_or_detail (format_detection_line n a)"
  by (cases a) (simp_all add: format_detection_line_def Let_def)

lemma cycle_lines_no_misdetections:
  assumes "a_opt = None \<or> (\<exists>a. a_opt = Some a \<and> misdetections a = [])"
  shows "\<forall>l \<in> set (cycle_lines mode n a_opt previous). \<not> is_alert_or_detail l"
  using assms
  by (auto simp: cycle_lines_def voltage_line_not_alert format_line_not_alert
      split: option.splits)

lemma both_cycle_lines:
  "\<forall>l \<in> set (cycle_lines ''both'' n (analyze_detection data ''both'') previous).
     \<not> is_alert_or_detail l"
proof (rule cycle_lines_no_misdetections)
  show "analyze_detection data ''both'' = None
        \<or> (\<exists>a. analyze_detection data ''both'' = Some a \<and> misdetections a = [])"
    using both_misdetections_empty[of data] by (cases "analyze_detection data ''both''") auto
qed

lemma both_run_log:
  "\<forall>l \<in> set (log_file_lines s). \<not> is_alert_or_detail l \<Longrightarrow>
   \<forall>l \<in> set (log_file_lines (run_cycles ''both'' outcomes s)). \<not> is_alert_or_detail l"
proof (induction outcomes arbitrary: s)
  case Nil
  then show ?case by simp
next
  case (Cons outcome rest)
  have "\<forall>l \<in> set (log_file_lines (monitor_cycle ''both'' outcome s)). \<not> is_alert_or_detail l"
    using Cons.prems both_cycle_lines by (auto simp: monitor_cycle_def Let_def)
  from Cons.IH[OF this] show ?case by simp
qed

subsection \<open>A failed fetch\<close>

text \<open>
  C8. When the status fetch raises (timeout, transport failure or undecodable body),
  \<open>get_charger_status\<close> returns no data, the analysis is absent, the cycle writes exactly
  the ``Connection failed'' reading to the log and to the console, the reading counter
  advances by one, and the run goes on with the next cycle from the resulting state.
  The cycle is a total function of the session: nothing is raised out of the loop body.
\<close>

theorem fetch_failure_cycle:
  "get_charger_status (Raised e) = None
   \<and> analyze_detection (get_charger_status (Raised e)) mode = None
   \<and> log_file_lines (monitor_cycle mode (Raised e) s)
       = log_file_lines s @ [Connection_failed (reading_num s)]
   \<and> console (monitor_cycle mode (Raised e) s)
       = console s @ [Connection_failed (reading_num s)]
   \<and> reading_num (monitor_cycle mode (Raised e) s) = reading_num s + 1
   \<and> run_cycles mode (Raised e # rest) s
       = run_cycles mode rest (monitor_cycle mode (Raised e) s)"
  by (simp add: get_charger_status_def analyze_detection_def monitor_cycle_def
      cycle_lines_def format_detection_line_def Let_def split: option.splits)

subsection \<open>Unconstrained mode\<close>

text \<open>
  C9. In mode \<open>both\<close>, for every snapshot, the misdetections list of
  \<open>analyze_detection\<close> is empty and the summary line is the tally line (total, class-A
  count, class-B count); no line of a cycle is a misdetection alert or a per-slot
  misdetection detail, and none is ever written to the log over a whole run, whatever the
  fetch outcomes.
\<close>

theorem both_mode_never_flags:
  "(\<forall>a. analyze_detection data ''both'' = Some a \<longrightarrow>
        misdetections a = []
      \<and> format_detection_line n (Some a) = Both_line n (total_active a) (aa_count a) (aaa_count a))
   \<and> (\<forall>l \<in> set (cycle_lines ''both'' n (analyze_detection data ''both'') previous).
        \<not> is_alert_or_detail l)
   \<and> (\<forall>l \<in> set (log_file_lines (run_cycles ''both'' outcomes initial_session)).
        \<not> is_alert_or_detail l)"
proof -
  have "\<forall>l \<in> set (log_file_lines initial_session). \<not> is_alert_or_detail l"
    by (simp add: initial_session_def)
  then have run: "\<forall>l \<in> set (log_file_lines (run_cycles ''both'' outcomes initial_session)).
        \<not> is_alert_or_detail l"
    by (rule both_run_log)
  have fmt: "misdetections a = []
      \<and> format_detection_line n (Some a) = Both_line n (total_active a) (aa_count a) (aaa_count a)"
    if "analyze_detection data ''both'' = Some a" for a
    using both_misdetections_empty[OF that] by (simp add: format_detection_line_def Let_def)
  show ?thesis using fmt both_cycle_lines run by blast
qed

theorem both_mode_never_flags_witness:
  "\<exists>a. analyze_detection
          (Some \<lparr>batteries = Some
             [\<lparr>slotState = ''charging'', batteryDetected = ''KLVR-AA'', debug = None\<rparr>,
              \<lparr>slotState = ''charging'', batteryDetected = ''KLVR-AAA'',
               debug = Some \<lparr>dbg_voltageAAA_mv = Some 1450, dbg_voltageAA_mv = Some 1150,
                             dbg_voltageDelta_mv = Some 300, dbg_lastDetection_ms = None\<rparr>\<rparr>]\<rparr>)
          ''both'' = Some a
      \<and> total_active a = 2 \<and> aa_count a = 1 \<and> aaa_count a = 1
      \<and> misdetections a = []
      \<and> format_detection_line 1 (Some a) = Both_line 1 2 1 1"
proof -
  let ?data = "Some \<lparr>batteries = Some
             [\<lparr>slotState = ''charging'', batteryDetected = ''KLVR-AA'', debug = None\<rparr>,
              \<lparr>slotState = ''charging'', batteryDetected = ''KLVR-AAA'',
               debug = Some \<lparr>dbg_voltageAAA_mv = Some 1450, dbg_voltageAA_mv = Some 1150,
                             dbg_voltageDelta_mv = Some 300, dbg_lastDetection_ms = None\<rparr>\<rparr>]\<rparr>"
  obtain a where a: "analyze_detection ?data ''both'' = Some a"
    "total_active a = 2" "aa_count a = 1" "aaa_count a = 1"
    by (simp add: analyze_detection_Some)
  from both_mode_never_flags[of ?data 1 None "[]"] a(1)
  have "misdetections a = []
      \<and> format_detection_line 1 (Some a) = Both_line 1 (total_active a) (aa_count a) (aaa_count a)"
    by blast
  then show ?thesis using a by auto
qed

subsection \<open>Test mode \<open>aa\<close>: one class-A and one class-B slot\<close>

lemma filter_all_entries:
  "filter P (all_entries i bs) = concat (map (\<lambda>(k, b). filter P (slot_all k b)) (enumerate i bs))"
  by (induction bs arbitrary: i) (simp_all add: all_entries_def)

lemma slot_all_with_debug:
  "slotState b \<noteq> ''empty'' \<Longrightarrow> debug b = Some dbg \<Longrightarrow>
     slot_all k b = [make_debug_entry k (batteryDetected b) dbg]"
  by (simp add: slot_all_def)

lemma detected_type_make [simp]: "detected_type (make_debug_entry k d dbg) = d"
  by (simp add: make_debug_entry_def)

lemma slot_make [simp]: "slot (make_debug_entry k d dbg) = k"
  by (simp add: make_debug_entry_def)

text \<open>
  A snapshot with two occupied slots, one labelled \<open>KLVR-AA\<close> and one labelled
  \<open>KLVR-AAA\<close>, neither with a \<open>debug\<close> object: in mode \<open>aa\<close> the analysis reports
  no misdetection and the cycle writes the summary line alone, with the ``all correct''
  status.
\<close>

theorem class_B_slot_without_debug_not_reported:
  "analyze_detection
     (Some \<lparr>batteries = Some
        [\<lparr>slotState = ''charging'', batteryDetected = ''KLVR-AA'', debug = None\<rparr>,
         \<lparr>slotState = ''charging'', batteryDetected = ''KLVR-AAA'', debug = None\<rparr>]\<rparr>)
     ''aa''
   = Some \<lparr>total_active = 2, aa_count = 1, aaa_count = 1, all_debug_info = [],
           misdetections = [], correct_detections = [], test_type = ''aa''\<rparr>
   \<and> log_file_lines
       (monitor_cycle ''aa''
          (Returned \<lparr>batteries = Some
             [\<lparr>slotState = ''charging'', batteryDetected = ''KLVR-AA'', debug = None\<rparr>,
              \<lparr>slotState = ''charging'', batteryDetected = ''KLVR-AAA'', debug = None\<rparr>]\<rparr>)
          initial_session)
     = [AA_test_line 1 2 0 0 False]"
  by code_simp

text \<open>
  C5 (as amended). For every snapshot with exactly two non-empty slots, one whose label
  resolves to class A and one whose label resolves to class B, in which the class-B slot
  carries a \<open>debug\<close> object, the monitor in mode \<open>aa\<close> reports exactly one
  misdetection (the entry of the class-B slot), its summary line has the misdetection
  status, the alert message is emitted, and the log receives the lines of the cycle, the
  summary line first and the detail line of the class-B slot among them.
\<close>

theorem aa_mode_flags_class_B_slot:
  assumes i: "i < length bs" and j: "j < length bs"
    and occ: "\<forall>k < length bs. (slotState (bs ! k) \<noteq> ''empty'') = (k = i \<or> k = j)"
    and a1: "py_in ''AA'' (batteryDetected (bs ! i))"
    and a2: "\<not> py_in ''AAA'' (batteryDetected (bs ! i))"
    and b: "py_in ''AAA'' (batteryDetected (bs ! j))"
    and d: "debug (bs ! j) = Some dbg"
  shows "\<exists>a. analyze_detection (Some \<lparr>batteries = Some bs\<rparr>) ''aa'' = Some a
     \<and> total_active a = 2
     \<and> misdetections a = [make_debug_entry j (batteryDetected (bs ! j)) dbg]
     \<and> format_detection_line n (Some a) = AA_test_line n 2 (length (correct_detections a)) 1 True
     \<and> hd (cycle_lines ''aa'' n (Some a) previous) = format_detection_line n (Some a)
     \<and> Alert_line AA_misdetection_alert 1 \<in> set (cycle_lines ''aa'' n (Some a) previous)
     \<and> Detail_line (make_debug_entry j (batteryDetected (bs ! j)) dbg)
         \<in> set (cycle_lines ''aa'' n (Some a) previous)
     \<and> log_file_lines (monitor_cycle ''aa'' (Returned \<lparr>batteries = Some bs\<rparr>) s)
         = log_file_lines s @ cycle_lines ''aa'' (reading_num s) (Some a) (last_analysis s)"
proof -
  let ?e = "make_debug_entry j (batteryDetected (bs ! j)) dbg"
  let ?P = "\<lambda>e. flags_misdetection ''aa'' (detected_type e)"
  define a where "a = \<lparr>total_active = length (filter (\<lambda>b. slotState b \<noteq> ''empty'') bs),
           aa_count = length (filter (\<lambda>b. py_in ''AA'' (batteryDetected b)
                                          \<and> \<not> py_in ''AAA'' (batteryDetected b))
                               (filter (\<lambda>b. slotState b \<noteq> ''empty'') bs)),
           aaa_count = length (filter (\<lambda>b. py_in ''AAA'' (batteryDetected b))
                                (filter (\<lambda>b. slotState b \<noteq> ''empty'') bs)),
           all_debug_info = all_entries 0 bs,
           misdetections = filter ?P (all_entries 0 bs),
           correct_detections =
             filter (\<lambda>e. flags_correct ''aa'' (detected_type e)) (all_entries 0 bs),
           test_type = ''aa''\<rparr>"
  have an: "analyze_detection (Some \<lparr>batteries = Some bs\<rparr>) ''aa'' = Some a"
    by (simp add: analyze_detection_Some a_def)
  have ij: "i \<noteq> j" using a2 b by auto
  have "{k. k < length bs \<and> slotState (bs ! k) \<noteq> ''empty''} = {i, j}"
    using occ i j by auto
  then have "card {k. k < length bs \<and> slotState (bs ! k) \<noteq> ''empty''} = 2"
    using ij by simp
  then have tot: "total_active a = 2"
    by (simp add: a_def length_filter_conv_card)
  have occ_j: "slotState (bs ! j) \<noteq> ''empty''" using occ j by simp
  have others: "\<forall>k < length bs. k \<noteq> j \<longrightarrow> filter ?P (slot_all (0 + k) (bs ! k)) = []"
  proof (intro allI impI)
    fix k assume k: "k < length bs" "k \<noteq> j"
    show "filter ?P (slot_all (0 + k) (bs ! k)) = []"
    proof (cases "k = i")
      case True
      then show ?thesis using a2
        by (auto simp: slot_all_def flags_misdetection_def split: option.splits)
    next
      case False
      have "(slotState (bs ! k) \<noteq> ''empty'') = (k = i \<or> k = j)"
        using occ k(1) by blast
      then have "slotState (bs ! k) = ''empty''" using False k(2) by simp
      then show ?thesis by (simp add: slot_all_def)
    qed
  qed
  have "filter ?P (all_entries 0 bs) = filter ?P (slot_all (0 + j) (bs ! j))"
    unfolding filter_all_entries by (rule all_entries_single[OF j others])
  also have "\<dots> = [?e]"
    using slot_all_with_debug[OF occ_j d] b by (simp add: flags_misdetection_def)
  finally have mis: "misdetections a = [?e]" by (simp add: a_def)
  have tt: "test_type a = ''aa''" by (simp add: a_def)
  have fmt: "format_detection_line n (Some a)
               = AA_test_line n 2 (length (correct_detections a)) 1 True"
    using mis tot tt by (simp add: format_detection_line_def Let_def)
  have hd: "hd (cycle_lines ''aa'' n (Some a) previous) = format_detection_line n (Some a)"
    by (simp add: cycle_lines_def)
  have alert: "Alert_line AA_misdetection_alert 1 \<in> set (cycle_lines ''aa'' n (Some a) previous)"
    using mis by (simp add: cycle_lines_def alert_msg_def)
  have detail: "Detail_line ?e \<in> set (cycle_lines ''aa'' n (Some a) previous)"
    using mis by (simp add: cycle_lines_def)
  have log: "log_file_lines (monitor_cycle ''aa'' (Returned \<lparr>batteries = Some bs\<rparr>) s)
         = log_file_lines s @ cycle_lines ''aa'' (reading_num s) (Some a) (last_analysis s)"
    using an by (simp add: monitor_cycle_def get_charger_status_def Let_def)
  show ?thesis using an tot mis fmt hd alert detail log by blast
qed

theorem aa_mode_flags_class_B_slot_witness:
  "\<exists>a. analyze_detection
          (Some \<lparr>batteries = Some
             [\<lparr>slotState = ''charging'', batteryDetected = ''KLVR-AA'', debug = None\<rparr>,
              \<lparr>slotState = ''empty'', batteryDetected = '''', debug = None\<rparr>,
              \<lparr>slotState = ''charging'', batteryDetected = ''KLVR-AAA'',
               debug = Some \<lparr>dbg_voltageAAA_mv = Some 1450, dbg_voltageAA_mv = Some 1150,
                             dbg_voltageDelta_mv = Some 300, dbg_lastDetection_ms = None\<rparr>\<rparr>]\<rparr>)
          ''aa'' = Some a
      \<and> total_active a = 2
      \<and> misdetections a
          = [\<lparr>slot = 2, detected_type = ''KLVR-AAA'', voltageAAA_mv = 1450, voltageAA_mv = 1150,
              voltageDelta_mv = 300, lastDetection_ms = 0\<rparr>]
      \<and> Alert_line AA_misdetection_alert 1 \<in> set (cycle_lines ''aa'' 1 (Some a) None)
      \<and> Detail_line \<lparr>slot = 2, detected_type = ''KLVR-AAA'', voltageAAA_mv = 1450,
                       voltageAA_mv = 1150, voltageDelta_mv = 300, lastDetection_ms = 0\<rparr>
          \<in> set (cycle_lines ''aa'' 1 (Some a) None)"
proof -
  let ?bs = "[\<lparr>slotState = ''charging'', batteryDetected = ''KLVR-AA'', debug = None\<rparr>,
              \<lparr>slotState = ''empty'', batteryDetected = '''', debug = None\<rparr>,
              \<lparr>slotState = ''charging'', batteryDetected = ''KLVR-AAA'',
               debug = Some \<lparr>dbg_voltageAAA_mv = Some 1450, dbg_voltageAA_mv = Some 1150,
                             dbg_voltageDelta_mv = Some 300, dbg_lastDetection_ms = None\<rparr>\<rparr>]"
  let ?dbg = "\<lparr>dbg_voltageAAA_mv = Some 1450, dbg_voltageAA_mv = Some 1150,
               dbg_voltageDelta_mv = Some 300, dbg_lastDetection_ms = None\<rparr>"
  have i: "0 < length ?bs" and j: "2 < length ?bs" by simp_all
  have occ: "\<forall>k < length ?bs. (slotState (?bs ! k) \<noteq> ''empty'') = (k = 0 \<or> k = 2)"
    by (auto simp: less_Suc_eq nth_Cons' numeral_3_eq_3 numeral_2_eq_2)
  have a1: "py_in ''AA'' (batteryDetected (?bs ! 0))" by simp
  have a2: "\<not> py_in ''AAA'' (batteryDetected (?bs ! 0))" by simp
  have b: "py_in ''AAA'' (batteryDetected (?bs ! 2))" by simp
  have d: "debug (?bs ! 2) = Some ?dbg" by simp
  have e: "make_debug_entry 2 (batteryDetected (?bs ! 2)) ?dbg
        = \<lparr>slot = 2, detected_type = ''KLVR-AAA'', voltageAAA_mv = 1450, voltageAA_mv = 1150,
              voltageDelta_mv = 300, lastDetection_ms = 0\<rparr>"
    by (simp add: make_debug_entry_def get_or_0_def)
  from aa_mode_flags_class_B_slot[OF i j occ a1 a2 b d, of 1 None initial_session]
  show ?thesis unfolding e by blast
qed

subsection \<open>Occupied slots without a \<open>debug\<close> object\<close>

text \<open>
  C6. An occupied slot whose snapshot entry has no \<open>debug\<close> object is counted in the
  occupancy total and, according to its label alone, in the per-type tallies, but no entry
  for it is ever put into \<open>all_debug_info\<close>, \<open>misdetections\<close> or
  \<open>correct_detections\<close>; no per-slot line (voltage or misdetection detail) of the cycle
  is about it, whatever its label and the test mode. When it is the only occupied slot,
  the cycle has no misdetection, no alert and no detail line at all.
\<close>

theorem debugless_slot_never_flagged:
  assumes i: "i < length bs"
    and occ: "slotState (bs ! i) \<noteq> ''empty''"
    and nodebug: "debug (bs ! i) = None"
  shows "\<exists>a. analyze_detection (Some \<lparr>batteries = Some bs\<rparr>) mode = Some a
     \<and> total_active a = card {k. k < length bs \<and> slotState (bs ! k) \<noteq> ''empty''}
     \<and> i \<in> {k. k < length bs \<and> slotState (bs ! k) \<noteq> ''empty''}
     \<and> aa_count a = card {k. k < length bs \<and> slotState (bs ! k) \<noteq> ''empty''
                              \<and> py_in ''AA'' (batteryDetected (bs ! k))
                              \<and> \<not> py_in ''AAA'' (batteryDetected (bs ! k))}
     \<and> aaa_count a = card {k. k < length bs \<and> slotState (bs ! k) \<noteq> ''empty''
                               \<and> py_in ''AAA'' (batteryDetected (bs ! k))}
     \<and> i \<notin> slot ` set (all_debug_info a)
     \<and> i \<notin> slot ` set (misdetections a)
     \<and> i \<notin> slot ` set (correct_detections a)
     \<and> (\<forall>l \<in> set (cycle_lines mode n (Some a) previous). line_slot l \<noteq> Some i)
     \<and> ((\<forall>k < length bs. k \<noteq> i \<longrightarrow> slotState (bs ! k) = ''empty'') \<longrightarrow>
            misdetections a = []
          \<and> (\<forall>l \<in> set (cycle_lines mode n (Some a) previous). \<not> is_alert_or_detail l))"
proof -
  define a where "a = \<lparr>total_active = length (filter (\<lambda>b. slotState b \<noteq> ''empty'') bs),
           aa_count = length (filter (\<lambda>b. py_in ''AA'' (batteryDetected b)
                                          \<and> \<not> py_in ''AAA'' (batteryDetected b))
                               (filter (\<lambda>b. slotState b \<noteq> ''empty'') bs)),
           aaa_count = length (filter (\<lambda>b. py_in ''AAA'' (batteryDetected b))
                                (filter (\<lambda>b. slotState b \<noteq> ''empty'') bs)),
           all_debug_info = all_entries 0 bs,
           misdetections =
             filter (\<lambda>e. flags_misdetection mode (detected_type e)) (all_entries 0 bs),
           correct_detections =
             filter (\<lambda>e. flags_correct mode (detected_type e)) (all_entries 0 bs),
           test_type = mode\<rparr>"
  have an: "analyze_detection (Some \<lparr>batteries = Some bs\<rparr>) mode = Some a"
    by (simp add: analyze_detection_Some a_def)
  have tot: "total_active a = card {k. k < length bs \<and> slotState (bs ! k) \<noteq> ''empty''}"
    by (simp add: a_def length_filter_conv_card)
  have mem: "i \<in> {k. k < length bs \<and> slotState (bs ! k) \<noteq> ''empty''}"
    using i occ by simp
  have aa: "aa_count a = card {k. k < length bs \<and> slotState (bs ! k) \<noteq> ''empty''
                              \<and> py_in ''AA'' (batteryDetected (bs ! k))
                              \<and> \<not> py_in ''AAA'' (batteryDetected (bs ! k))}"
    by (simp add: a_def length_filter_conv_card conj_commute conj_left_commute)
  have aaa: "aaa_count a = card {k. k < length bs \<and> slotState (bs ! k) \<noteq> ''empty''
                               \<and> py_in ''AAA'' (batteryDetected (bs ! k))}"
    by (simp add: a_def length_filter_conv_card conj_commute conj_left_commute)
  have none: "slot e \<noteq> i" if "e \<in> set (all_entries 0 bs)" for e
  proof
    assume "slot e = i"
    from all_entries_entry[OF that] obtain k where
      k: "k < length bs" "slot e = 0 + k" "e \<in> set (slot_all (0 + k) (bs ! k))" by blast
    then have "k = i" using \<open>slot e = i\<close> by simp
    then have "e \<in> set (slot_all i (bs ! i))" using k by simp
    then show False using nodebug occ by (simp add: slot_all_def)
  qed
  have all: "i \<notin> slot ` set (all_debug_info a)"
    using none by (auto simp: a_def)
  have mis: "i \<notin> slot ` set (misdetections a)"
    using none by (auto simp: a_def)
  have cor: "i \<notin> slot ` set (correct_detections a)"
    using none by (auto simp: a_def)
  have lines: "\<forall>l \<in> set (cycle_lines mode n (Some a) previous). line_slot l \<noteq> Some i"
    using all mis
    by (auto simp: cycle_lines_def format_detection_line_def voltage_line_def alert_msg_def
        Let_def split: option.splits if_splits)
  have alone: "misdetections a = []
          \<and> (\<forall>l \<in> set (cycle_lines mode n (Some a) previous). \<not> is_alert_or_detail l)"
    if only: "\<forall>k < length bs. k \<noteq> i \<longrightarrow> slotState (bs ! k) = ''empty''"
  proof -
    have "\<forall>k < length bs. slot_all (0 + k) (bs ! k) = []"
    proof (intro allI impI)
      fix k assume "k < length bs"
      show "slot_all (0 + k) (bs ! k) = []"
      proof (cases "k = i")
        case True
        then show ?thesis using nodebug by (simp add: slot_all_def)
      next
        case False
        then have "slotState (bs ! k) = ''empty''" using only \<open>k < length bs\<close> by blast
        then show ?thesis by (simp add: slot_all_def)
      qed
    qed
    then have "all_entries 0 bs = []"
      unfolding all_entries_def by (rule concat_enumerate_empty)
    then have m: "misdetections a = []" by (simp add: a_def)
    then have "\<forall>l \<in> set (cycle_lines mode n (Some a) previous). \<not> is_alert_or_detail l"
      by (intro cycle_lines_no_misdetections) simp
    with m show ?thesis by simp
  qed
  show ?thesis using an tot mem aa aaa all mis cor lines alone by blast
qed

theorem debugless_slot_never_flagged_witness:
  "\<exists>a. analyze_detection
          (Some \<lparr>batteries = Some
             [\<lparr>slotState = ''charging'', batteryDetected = ''KLVR-AAA'', debug = None\<rparr>]\<rparr>)
          ''aa'' = Some a
      \<and> 0 \<notin> slot ` set (all_debug_info a)
      \<and> 0 \<notin> slot ` set (misdetections a)
      \<and> 0 \<notin> slot ` set (correct_detections a)
      \<and> total_active a = 1
      \<and> misdetections a = []"
proof -
  let ?bs = "[\<lparr>slotState = ''charging'', batteryDetected = ''KLVR-AAA'', debug = None\<rparr>]"
  have i: "0 < length ?bs" by simp
  have occ: "slotState (?bs ! 0) \<noteq> ''empty''" by simp
  have nd: "debug (?bs ! 0) = None" by simp
  have only: "\<forall>k < length ?bs. k \<noteq> 0 \<longrightarrow> slotState (?bs ! k) = ''empty''" by simp
  have c: "card {k. k < length ?bs \<and> slotState (?bs ! k) \<noteq> ''empty''} = 1"
  proof -
    have "{k. k < length ?bs \<and> slotState (?bs ! k) \<noteq> ''empty''} = {0}" by auto
    then show ?thesis by simp
  qed
  from debugless_slot_never_flagged[OF i occ nd, of "''aa''" 1 None] only c
  show ?thesis by force
qed

end
